theory Spec2Isabelle
  imports Main "HOL-Library.Word" "HOL-Library.AList"
begin

section \<open>Common Go values\<close>

text \<open>
  Go's \<open>int\<close> is a 64-bit two's complement integer on the platforms the program is built
  for: \<open>+\<close> wraps, comparisons are signed (\<open>sint\<close>).
\<close>

type_synonym go_int = "64 word"

text \<open>
  An \<open>error\<close> value. \<open>AgentAlreadyAllocated\<close> is the sentinel of sflow/agent.go (compared
  by identity in the source), \<open>errors_New\<close> is \<open>errors.New\<close>, \<open>external\<close> is an error handed
  back by a collaborator outside the repository (the network stack, the switch client,
  the JSON and UUID libraries).
\<close>

datatype error = AgentAlreadyAllocated | errors_New string | external string

text \<open>A run-time panic of the Go program: the goroutine does not return a value.\<close>

datatype panic = nil_dereference | type_assertion | slice_bounds

subsection \<open>strconv.FormatInt (base 10)\<close>

definition digit_char :: "nat \<Rightarrow> char" where
  "digit_char d = ''0123456789'' ! d"

fun nat_digits :: "nat \<Rightarrow> string" where
  "nat_digits n = (if n < 10 then [digit_char n] else nat_digits (n div 10) @ [digit_char (n mod 10)])"

declare nat_digits.simps [simp del]

definition FormatInt :: "int \<Rightarrow> string" where
  "FormatInt i = (if i < 0 then CHR ''-'' # nat_digits (nat (- i)) else nat_digits (nat i))"

section \<open>flow/probes/ovssflow.go: the probe description\<close>

text \<open>
  \<open>OvsSFlowProbe\<close> is the only \<open>flow.FlowProbePathSetter\<close> of the sources: an agent keeps
  the probe it was allocated with.
\<close>

record OvsSFlowProbe =
  ID :: string
  Interface :: string
  Target :: string
  HeaderSize :: "32 word"
  Sampling :: "32 word"
  Polling :: "32 word"
  ProbeGraphPath :: string

section \<open>sflow/agent.go\<close>

text \<open>
  The agent. The analyzer client, the mapping pipeline and the flow table are opaque
  collaborators and carry no field here; \<open>running\<close> is the atomic flag, unset (false)
  in a new agent.
\<close>

record SFlowAgent =
  UUID :: string
  Addr :: string
  Port :: go_int
  FlowProbePathSetter :: "OvsSFlowProbe option"
  running :: bool

text \<open>The allocator: \<open>allocated\<close> is the Go map from port to agent, in some iteration order.\<close>

record SFlowAgentAllocator =
  allocated :: "(go_int \<times> SFlowAgent) list"

text \<open>The configuration keys \<open>Alloc\<close> reads on every call.\<close>

record sflow_config =
  bind_address :: string
  port_min :: go_int
  port_max :: go_int

text \<open>
  \<open>net.ListenUDP\<close> as the environment answers it: \<open>None\<close> when the socket is bound,
  the error otherwise.
\<close>

type_synonym listen_udp = "string \<Rightarrow> go_int \<Rightarrow> error option"

definition GetTarget :: "SFlowAgent \<Rightarrow> string" where
  "GetTarget sfa = Addr sfa @ '':'' @ FormatInt (sint (Port sfa))"

text \<open>
  \<open>start\<close>, up to the moment it enters its receive loop: a bind error is logged and
  returned, with the agent untouched; otherwise the running flag is stored. The loop
  itself (tickers, datagrams) is not modelled.
\<close>

definition start :: "listen_udp \<Rightarrow> SFlowAgent \<Rightarrow> error option \<times> SFlowAgent" where
  "start listen sfa =
     (case listen (Addr sfa) (Port sfa) of
        Some err \<Rightarrow> (Some err, sfa)
      | None \<Rightarrow> (None, sfa\<lparr>running := True\<rparr>))"

text \<open>
  \<open>Start\<close> is \<open>go sfa.start()\<close>: it has no result, and the value \<open>start\<close> returns in
  the spawned goroutine is dropped. What remains is the agent as the goroutine leaves it.
\<close>

definition Start :: "listen_udp \<Rightarrow> SFlowAgent \<Rightarrow> SFlowAgent" where
  "Start listen sfa = snd (start listen sfa)"

definition Stop :: "SFlowAgent \<Rightarrow> SFlowAgent" where
  "Stop sfa = (if running sfa then sfa\<lparr>running := False\<rparr> else sfa)"

definition SetFlowProbePathSetter :: "SFlowAgent \<Rightarrow> OvsSFlowProbe option \<Rightarrow> SFlowAgent" where
  "SetFlowProbePathSetter sfa p = sfa\<lparr>FlowProbePathSetter := p\<rparr>"

definition NewSFlowAgent :: "string \<Rightarrow> string \<Rightarrow> go_int \<Rightarrow> SFlowAgent" where
  "NewSFlowAgent u a p =
     \<lparr>UUID = u, Addr = a, Port = p, FlowProbePathSetter = None, running = False\<rparr>"

definition NewSFlowAgentAllocator :: SFlowAgentAllocator where
  "NewSFlowAgentAllocator = \<lparr>allocated = []\<rparr>"

definition Agents :: "SFlowAgentAllocator \<Rightarrow> SFlowAgent list" where
  "Agents a = map snd (allocated a)"

text \<open>
  \<open>Release\<close>: the range loop visits every entry the map holds; an agent of the uuid is
  stopped and its entry deleted, by key.
\<close>

definition release_entry :: "string \<Rightarrow> go_int \<times> SFlowAgent \<Rightarrow> (go_int \<times> SFlowAgent) list
    \<Rightarrow> (go_int \<times> SFlowAgent) list" where
  "release_entry uuid e m = (if uuid = UUID (snd e) then AList.delete (fst e) m else m)"

definition Release :: "SFlowAgentAllocator \<Rightarrow> string \<Rightarrow> SFlowAgentAllocator" where
  "Release a uuid = a\<lparr>allocated := fold (release_entry uuid) (allocated a) (allocated a)\<rparr>"

definition ReleaseAll :: "SFlowAgentAllocator \<Rightarrow> SFlowAgentAllocator" where
  "ReleaseAll a = a\<lparr>allocated := fold (\<lambda>e m. AList.delete (fst e) m) (allocated a) (allocated a)\<rparr>"

text \<open>
  The port loop of \<open>Alloc\<close>, \<open>for i := min; i != max+1; i++\<close>: it stops when \<open>i\<close>
  reaches \<open>stop = max + 1\<close> (wrapping), and returns the first \<open>i\<close> the map has no entry for.
\<close>

function alloc_loop :: "(go_int \<times> SFlowAgent) list \<Rightarrow> go_int \<Rightarrow> go_int \<Rightarrow> go_int option" where
  "alloc_loop m i stop =
     (if i = stop then None
      else if map_of m i = None then Some i
      else alloc_loop m (i + 1) stop)"
  by pat_completeness auto
termination
proof (relation "measure (\<lambda>(m, i, stop). unat (stop - i))")
  show "wf (measure (\<lambda>(m, i, stop). unat (stop - i)))" by simp
next
  fix m :: "(go_int \<times> SFlowAgent) list" and i stop :: go_int
  assume "i \<noteq> stop"
  then have nz: "stop - i \<noteq> 0" by simp
  have e: "stop - (i + 1) = (stop - i) - 1" by simp
  have "unat ((stop - i) - 1) < unat (stop - i)"
    using nz by (simp add: unat_minus_one unat_gt_0)
  then have "unat (stop - (i + 1)) < unat (stop - i)"
    by (simp only: e)
  then show "((m, i + 1, stop), (m, i, stop)) \<in> measure (\<lambda>(m, i, stop). unat (stop - i))"
    by simp
qed

declare alloc_loop.simps [simp del]

definition Alloc :: "sflow_config \<Rightarrow> listen_udp \<Rightarrow> SFlowAgentAllocator \<Rightarrow> string
    \<Rightarrow> OvsSFlowProbe option \<Rightarrow> (SFlowAgent option \<times> error option) \<times> SFlowAgentAllocator" where
  "Alloc cfg listen a uuid p =
     (let address = (if bind_address cfg = [] then ''127.0.0.1'' else bind_address cfg);
          min = (if port_min cfg = 0 then 6345 else port_min cfg);
          max = (if port_max cfg = 0 then 6355 else port_max cfg)
      in case find (\<lambda>e. uuid = UUID (snd e)) (allocated a) of
           Some e \<Rightarrow> ((Some (snd e), Some AgentAlreadyAllocated), a)
         | None \<Rightarrow>
             (case alloc_loop (allocated a) min (max + 1) of
                Some i \<Rightarrow>
                  (let s = Start listen (SetFlowProbePathSetter (NewSFlowAgent uuid address i) p)
                   in ((Some s, None), a\<lparr>allocated := AList.update i s (allocated a)\<rparr>))
              | None \<Rightarrow> ((None, Some (errors_New ''sflow port exhausted'')), a)))"

text \<open>
  The range \<open>Alloc\<close> works with: the configured bounds, with the defaults it substitutes
  for 0. (The struct fields \<open>MinPort\<close> and \<open>MaxPort\<close> are never assigned in the sources.)
\<close>

definition MinPort :: "sflow_config \<Rightarrow> go_int" where
  "MinPort cfg = (if port_min cfg = 0 then 6345 else port_min cfg)"

definition MaxPort :: "sflow_config \<Rightarrow> go_int" where
  "MaxPort cfg = (if port_max cfg = 0 then 6355 else port_max cfg)"

definition in_port_range :: "sflow_config \<Rightarrow> go_int \<Rightarrow> bool" where
  "in_port_range cfg p = (sint (MinPort cfg) \<le> sint p \<and> sint p \<le> sint (MaxPort cfg))"

text \<open>A range is well formed when it is not inverted and \<open>MaxPort + 1\<close> does not overflow.\<close>

definition wf_port_range :: "sflow_config \<Rightarrow> bool" where
  "wf_port_range cfg = (sint (MinPort cfg) \<le> sint (MaxPort cfg) \<and> sint (MaxPort cfg) < 2 ^ 63 - 1)"

definition is_free :: "SFlowAgentAllocator \<Rightarrow> go_int \<Rightarrow> bool" where
  "is_free a p = (map_of (allocated a) p = None)"

text \<open>The states of an allocator under one configuration: what its operations reach from a new one.\<close>

inductive reachable :: "sflow_config \<Rightarrow> SFlowAgentAllocator \<Rightarrow> bool" for cfg where
  reach_new: "reachable cfg NewSFlowAgentAllocator"
| reach_Alloc: "reachable cfg a \<Longrightarrow> reachable cfg (snd (Alloc cfg listen a uuid p))"
| reach_Release: "reachable cfg a \<Longrightarrow> reachable cfg (Release a uuid)"
| reach_ReleaseAll: "reachable cfg a \<Longrightarrow> reachable cfg (ReleaseAll a)"

text \<open>
  The allocator invariant: the keys of the map are distinct (it is a map), no two agents
  share a uuid, and every agent sits at the key of its own port, inside the range.
\<close>

definition alloc_inv :: "sflow_config \<Rightarrow> SFlowAgentAllocator \<Rightarrow> bool" where
  "alloc_inv cfg a =
     (distinct (map fst (allocated a)) \<and> distinct (map UUID (Agents a)) \<and>
      list_all (\<lambda>e. Port (snd e) = fst e \<and> in_port_range cfg (fst e)) (allocated a))"


section \<open>topology/graph: nodes\<close>

text \<open>
  The graph package is not among the sources; the handlers use a node through
  \<open>Metadata()\<close>, a Go \<open>map[string]interface{}\<close>. A value of the interface is one of the
  scalars below; a key the map does not hold reads as the nil interface (\<open>None\<close>).
\<close>

datatype mvalue = VBool bool | VInt int | VString string

record Node =
  node_ID :: string
  metadata :: "(string \<times> mvalue) list"

definition Metadata :: "Node \<Rightarrow> string \<Rightarrow> mvalue option" where
  "Metadata n k = map_of (metadata n) k"

text \<open>
  What the probe handler asks of the graph and the topology package, which are not among
  the sources: \<open>LookupShortestPath\<close> from a node to a node of type host along ownership
  edges (empty when there is none), \<open>NodePath.Marshal\<close>, and the \<open>%v\<close> rendering of a node.
\<close>

record topology =
  LookupShortestPath :: "Node \<Rightarrow> Node list"
  Marshal :: "Node list \<Rightarrow> string"
  Sprint :: "Node \<Rightarrow> string"

section \<open>flow/probes/ovssflow.go\<close>

subsection \<open>The switch client\<close>

text \<open>
  A value sent to or received from the switch, and an operation of a transaction
  (\<open>libovsdb.Operation\<close>); a condition of \<open>Where\<close> is (column, function, value).
\<close>

datatype ovs_value = OvsString string | OvsUint32 "32 word" | OvsMap "(string \<times> string) list"
  | OvsUUID string | OvsSet "ovs_value list"

record Operation =
  Op :: string
  Table :: string
  Row :: "(string \<times> ovs_value) list"
  Where :: "(string \<times> string \<times> ovs_value) list"
  UUIDName :: string

text \<open>
  A row of a select result, in the shape the switch's schema gives it: \<open>_uuid\<close> is a
  uuid, \<open>external_ids\<close> a map from strings to strings.
\<close>

record ovs_row =
  uuid_col :: string
  external_ids_col :: "(string \<times> string) list"

text \<open>
  The switch is outside the repository: \<open>reply\<close> is its answer to a transaction, which
  may depend on the transactions sent before; \<open>sent\<close> records every transaction issued.
\<close>

record OvsClient =
  reply :: "Operation list list \<Rightarrow> Operation list \<Rightarrow> error + ovs_row list list"
  sent :: "Operation list list"

definition Exec :: "OvsClient \<Rightarrow> Operation list \<Rightarrow> (error + ovs_row list list) \<times> OvsClient" where
  "Exec c ops = (reply c (sent c) ops, c\<lparr>sent := sent c @ [ops]\<rparr>)"

subsection \<open>The handler\<close>

record OvsSFlowProbesHandler =
  ovsClient :: OvsClient
  allocator :: SFlowAgentAllocator

definition probeID :: "string \<Rightarrow> string" where
  "probeID i = ''SkydiveSFlowProbe_'' @ map (\<lambda>c. if c = CHR ''-'' then CHR ''_'' else c) i"

definition newInsertSFlowProbeOP :: "OvsSFlowProbe \<Rightarrow> Operation" where
  "newInsertSFlowProbeOP probe =
     \<lparr>Op = ''insert'', Table = ''sFlow'',
      Row = [(''agent'', OvsString (Interface probe)),
             (''targets'', OvsString (Target probe)),
             (''header'', OvsUint32 (HeaderSize probe)),
             (''sampling'', OvsUint32 (Sampling probe)),
             (''polling'', OvsUint32 (Polling probe)),
             (''external_ids'', OvsMap [(''probe-id'', ID probe)])],
      Where = [], UUIDName = ID probe\<rparr>"

definition compareProbeID :: "ovs_row \<Rightarrow> string \<Rightarrow> bool" where
  "compareProbeID row i =
     (case map_of (external_ids_col row) ''probe-id'' of Some v \<Rightarrow> v = i | None \<Rightarrow> False)"

definition selectOp :: Operation where
  "selectOp = \<lparr>Op = ''select'', Table = ''sFlow'', Row = [],
      Where = [(''_uuid'', ''!='', OvsUUID ''abc'')], UUIDName = []\<rparr>"

definition retrieveSFlowProbeUUID :: "OvsClient \<Rightarrow> string \<Rightarrow> (string \<times> error option) \<times> OvsClient" where
  "retrieveSFlowProbeUUID c i =
     (case Exec c [selectOp] of
        (Inl err, c') \<Rightarrow> (([], Some err), c')
      | (Inr result, c') \<Rightarrow>
          (case find (\<lambda>row. compareProbeID row i) (concat result) of
             Some row \<Rightarrow> ((uuid_col row, None), c')
           | None \<Rightarrow> (([], None), c')))"

definition updateBridgeOp :: "string \<Rightarrow> ovs_value \<Rightarrow> Operation" where
  "updateBridgeOp bridgeUUID v =
     \<lparr>Op = ''update'', Table = ''Bridge'', Row = [(''sflow'', v)],
      Where = [(''_uuid'', ''=='', OvsUUID bridgeUUID)], UUIDName = []\<rparr>"

definition registerSFlowProbeOnBridge :: "OvsClient \<Rightarrow> OvsSFlowProbe \<Rightarrow> string
    \<Rightarrow> error option \<times> OvsClient" where
  "registerSFlowProbeOnBridge c probe bridgeUUID =
     (case retrieveSFlowProbeUUID c (probeID bridgeUUID) of
        ((probeUUID, Some err), c1) \<Rightarrow> (Some err, c1)
      | ((probeUUID, None), c1) \<Rightarrow>
          (let (uuid, operations) =
                 (if probeUUID \<noteq> [] then (probeUUID, [])
                  else (UUIDName (newInsertSFlowProbeOP probe), [newInsertSFlowProbeOP probe]))
           in case Exec c1 (operations @ [updateBridgeOp bridgeUUID (OvsUUID uuid)]) of
                (Inl err, c2) \<Rightarrow> (Some err, c2)
              | (Inr result, c2) \<Rightarrow> (None, c2)))"

definition UnregisterSFlowProbeFromBridge :: "OvsClient \<Rightarrow> string \<Rightarrow> error option \<times> OvsClient" where
  "UnregisterSFlowProbeFromBridge c bridgeUUID =
     (case retrieveSFlowProbeUUID c (probeID bridgeUUID) of
        ((probeUUID, Some err), c1) \<Rightarrow> (Some err, c1)
      | ((probeUUID, None), c1) \<Rightarrow>
          (if probeUUID = [] then (None, c1)
           else case Exec c1 [updateBridgeOp bridgeUUID (OvsSet [])] of
                  (Inl err, c2) \<Rightarrow> (Some err, c2)
                | (Inr result, c2) \<Rightarrow> (None, c2)))"

text \<open>
  The result of a handler operation: a panic, or the returned error (\<open>None\<close> is nil).
  \<open>RegisterProbeOnBridge\<close> gives the agent the probe as it is before \<open>Target\<close> is written.
\<close>

definition RegisterProbeOnBridge :: "sflow_config \<Rightarrow> listen_udp \<Rightarrow> OvsSFlowProbesHandler
    \<Rightarrow> string \<Rightarrow> string \<Rightarrow> (panic + error option) \<times> OvsSFlowProbesHandler" where
  "RegisterProbeOnBridge cfg listen h bridgeUUID path =
     (let probe = \<lparr>ID = probeID bridgeUUID, Interface = ''lo'', Target = [], HeaderSize = 256,
                   Sampling = 1, Polling = 0, ProbeGraphPath = path\<rparr>
      in case Alloc cfg listen (allocator h) bridgeUUID (Some probe) of
           ((agent, err), a') \<Rightarrow>
             (if err \<noteq> None \<and> err \<noteq> Some AgentAlreadyAllocated
              then (Inr err, h\<lparr>allocator := a'\<rparr>)
              else case agent of
                     None \<Rightarrow> (Inl nil_dereference, h\<lparr>allocator := a'\<rparr>)
                   | Some ag \<Rightarrow>
                       (case registerSFlowProbeOnBridge (ovsClient h)
                               (probe\<lparr>Target := GetTarget ag\<rparr>) bridgeUUID of
                          (err', c') \<Rightarrow> (Inr err', h\<lparr>ovsClient := c', allocator := a'\<rparr>))))"

definition isOvsBridge :: "Node \<Rightarrow> bool" where
  "isOvsBridge n =
     (Metadata n ''UUID'' \<noteq> Some (VString []) \<and> Metadata n ''Type'' = Some (VString ''ovsbridge''))"

definition RegisterProbe :: "topology \<Rightarrow> sflow_config \<Rightarrow> listen_udp \<Rightarrow> OvsSFlowProbesHandler
    \<Rightarrow> Node \<Rightarrow> (panic + error option) \<times> OvsSFlowProbesHandler" where
  "RegisterProbe g cfg listen h n =
     (if isOvsBridge n then
        (let nodes = LookupShortestPath g n
         in if nodes = []
            then (Inr (Some (errors_New (''Failed to determine probePath for '' @ Sprint g n))), h)
            else (let probePath = Marshal g nodes
                  in case Metadata n ''UUID'' of
                       Some (VString u) \<Rightarrow> RegisterProbeOnBridge cfg listen h u probePath
                     | _ \<Rightarrow> (Inl type_assertion, h)))
      else (Inr None, h))"

definition unregisterProbe :: "OvsSFlowProbesHandler \<Rightarrow> string
    \<Rightarrow> error option \<times> OvsSFlowProbesHandler" where
  "unregisterProbe h bridgeUUID =
     (case UnregisterSFlowProbeFromBridge (ovsClient h) bridgeUUID of
        (err, c') \<Rightarrow> (err, h\<lparr>ovsClient := c'\<rparr>))"

definition UnregisterProbe :: "OvsSFlowProbesHandler \<Rightarrow> Node
    \<Rightarrow> (panic + error option) \<times> OvsSFlowProbesHandler" where
  "UnregisterProbe h n =
     (if isOvsBridge n then
        (case Metadata n ''UUID'' of
           Some (VString u) \<Rightarrow> (case unregisterProbe h u of (err, h') \<Rightarrow> (Inr err, h'))
         | _ \<Rightarrow> (Inl type_assertion, h))
      else (Inr None, h))"

definition Stop_handler :: "OvsSFlowProbesHandler \<Rightarrow> OvsSFlowProbesHandler" where
  "Stop_handler h = h\<lparr>allocator := ReleaseAll (allocator h)\<rparr>"

definition NewOvsSFlowProbesHandler :: "OvsClient \<Rightarrow> OvsSFlowProbesHandler" where
  "NewOvsSFlowProbesHandler c = \<lparr>ovsClient = c, allocator = NewSFlowAgentAllocator\<rparr>"

section \<open>Example values\<close>

text \<open>
  A bridge node with the given uuid, a host node, a topology in which every node has a
  path to the host, and a switch that holds no sampling row and accepts every transaction.
\<close>

definition bridge_node :: "string \<Rightarrow> Node" where
  "bridge_node u = \<lparr>node_ID = u, metadata = [(''Type'', VString ''ovsbridge''), (''UUID'', VString u)]\<rparr>"

definition host_node :: Node where
  "host_node = \<lparr>node_ID = ''h1'', metadata = [(''Type'', VString ''host''), (''Name'', VString ''h1'')]\<rparr>"

definition host_topology :: topology where
  "host_topology = \<lparr>LookupShortestPath = (\<lambda>n. [n, host_node]),
      Marshal = (\<lambda>ns. concat (map node_ID ns)), Sprint = node_ID\<rparr>"

definition empty_switch :: OvsClient where
  "empty_switch = \<lparr>reply = (\<lambda>hist ops. Inr []), sent = []\<rparr>"

definition one_port :: sflow_config where
  "one_port = \<lparr>bind_address = [], port_min = 6345, port_max = 6345\<rparr>"

definition listen_ok :: listen_udp where
  "listen_ok = (\<lambda>a p. None)"

definition listen_fails :: listen_udp where
  "listen_fails = (\<lambda>a p. Some (external ''listen udp: bind: address already in use''))"

text \<open>A switch that holds one sampling row, tagged with the probe-id of bridge br-1.\<close>

definition tagged_switch :: OvsClient where
  "tagged_switch =
     \<lparr>reply = (\<lambda>hist ops. Inr [[\<lparr>uuid_col = ''row-1'',
                                    external_ids_col = [(''probe-id'', probeID ''br-1'')]\<rparr>]]),
      sent = []\<rparr>"

section \<open>The handler with a path cache (the second version of ovssflow.go)\<close>

text \<open>
  The sources hold a second version of the probe handler, which resolves the graph path
  of an interface index through a cache filled by a separate updater goroutine. Its names
  that clash with the first version carry the suffix \<open>_cached\<close>.
\<close>

subsection \<open>Buffered channels\<close>

text \<open>
  A call either returns, or waits on a channel operation that cannot proceed in the
  state at hand.
\<close>

datatype 'a outcome = Returns 'a | Blocks

text \<open>
  A buffered channel of \<open>int64\<close>: the values sent and not yet received, oldest first, and
  the capacity given to \<open>make\<close>.
\<close>

record int64_chan =
  chan_buf :: "64 word list"
  chan_cap :: nat

definition make_chan :: "nat \<Rightarrow> int64_chan" where
  "make_chan n = \<lparr>chan_buf = [], chan_cap = n\<rparr>"

text \<open>\<open>c <- v\<close>: proceeds while the buffer has room, waits otherwise.\<close>

definition chan_send :: "int64_chan \<Rightarrow> 64 word \<Rightarrow> int64_chan outcome" where
  "chan_send c v =
     (if length (chan_buf c) < chan_cap c then Returns (c\<lparr>chan_buf := chan_buf c @ [v]\<rparr>)
      else Blocks)"

text \<open>\<open><-c\<close>: takes the oldest value, waits when there is none.\<close>

definition chan_recv :: "int64_chan \<Rightarrow> (64 word \<times> int64_chan) outcome" where
  "chan_recv c =
     (case chan_buf c of
        [] \<Rightarrow> Blocks
      | v # vs \<Rightarrow> Returns (v, c\<lparr>chan_buf := vs\<rparr>))"

subsection \<open>The cache and its updater\<close>

text \<open>
  The fields of the handler the path lookup uses. \<open>cache\<close> is the go-cache instance, from
  key to path (its entries are always strings; expiry, which depends on time, is not
  modelled); \<open>cacheUpdaterChan\<close> carries the indexes to resolve.
\<close>

record OvsSFlowProbesHandler_cached =
  cache :: "(string \<times> string) list"
  cacheUpdaterChan :: int64_chan

definition NewOvsSFlowProbesHandler_cached :: OvsSFlowProbesHandler_cached where
  "NewOvsSFlowProbesHandler_cached = \<lparr>cache = [], cacheUpdaterChan = make_chan 200\<rparr>"

text \<open>
  \<open>GetProbePath\<close>: a cached path is returned; otherwise the index is sent on the channel,
  with a plain send statement, and the empty path is returned once the send is done.
\<close>

definition GetProbePath :: "OvsSFlowProbesHandler_cached \<Rightarrow> 64 word
    \<Rightarrow> (string \<times> OvsSFlowProbesHandler_cached) outcome" where
  "GetProbePath h index =
     (case map_of (cache h) (FormatInt (sint index)) of
        Some path \<Rightarrow> Returns (path, h)
      | None \<Rightarrow>
          (case chan_send (cacheUpdaterChan h) index of
             Returns c \<Rightarrow> Returns ([], h\<lparr>cacheUpdaterChan := c\<rparr>)
           | Blocks \<Rightarrow> Blocks))"

text \<open>
  One round of the loop of \<open>cacheUpdater\<close>, on the branch that receives an index:
  \<open>lookupForProbePath\<close>, which walks the topology graph, is a parameter; a path that is not
  empty is stored under the index.
\<close>

definition cacheUpdater :: "(64 word \<Rightarrow> string) \<Rightarrow> OvsSFlowProbesHandler_cached
    \<Rightarrow> OvsSFlowProbesHandler_cached outcome" where
  "cacheUpdater lookupForProbePath h =
     (case chan_recv (cacheUpdaterChan h) of
        Blocks \<Rightarrow> Blocks
      | Returns (index, c) \<Rightarrow>
          (let path = lookupForProbePath index
           in if path \<noteq> []
              then Returns (h\<lparr>cache := AList.update (FormatInt (sint index)) path (cache h),
                               cacheUpdaterChan := c\<rparr>)
              else Returns (h\<lparr>cacheUpdaterChan := c\<rparr>)))"

text \<open>A handler whose channel holds 200 pending requests for index 7, and nothing cached.\<close>

definition full_handler :: OvsSFlowProbesHandler_cached where
  "full_handler = NewOvsSFlowProbesHandler_cached
     \<lparr>cacheUpdaterChan := \<lparr>chan_buf = replicate 200 7, chan_cap = 200\<rparr>\<rparr>"

section \<open>topology/graph/alert.go\<close>

subsection \<open>UUID and its JSON form\<close>

text \<open>
  \<open>UUID\<close> is the 16-byte array of the gouuid library, which is outside the repository:
  \<open>uuid_String\<close> is its \<open>String\<close> method (the hyphenated hex form), \<open>ParseHex\<close> its parser.
\<close>

type_synonym uuid = "128 word"

record uuid_lib =
  uuid_String :: "uuid \<Rightarrow> string"
  ParseHex :: "string \<Rightarrow> error + uuid"

text \<open>\<open>MarshalJSON\<close>: the string form between two double quotes (character 0x22), and a nil error.\<close>

definition MarshalJSON :: "uuid_lib \<Rightarrow> uuid \<Rightarrow> string \<times> error option" where
  "MarshalJSON L u = ([CHR 0x22] @ uuid_String L u @ [CHR 0x22], None)"

text \<open>
  \<open>UnmarshalJSON\<close> parses \<open>data[1 : len(data)-1]\<close>; the slice expression panics on fewer
  than two bytes. The result is the returned error and the value of the receiver
  afterwards, which is written only on success.
\<close>

definition UnmarshalJSON :: "uuid_lib \<Rightarrow> uuid \<Rightarrow> string \<Rightarrow> panic + (error option \<times> uuid)" where
  "UnmarshalJSON L u data =
     (if length data < 2 then Inl slice_bounds
      else case ParseHex L (take (length data - 2) (drop 1 data)) of
             Inl err \<Rightarrow> Inr (Some err, u)
           | Inr uid \<Rightarrow> Inr (None, uid))"

subsection \<open>Rules and messages\<close>

datatype AlertType = FIXED | THRESHOLD

text \<open>
  \<open>AlertTest\<close>, with the fields of the embedded \<open>AlertTestParam\<close>; the pointer \<open>UUID\<close> is
  \<open>None\<close> when nil, times are clock readings.
\<close>

record AlertTest =
  Name :: string
  Description :: string
  Select :: string
  Test :: string
  Action :: string
  alert_UUID :: "uuid option"
  CreateTime :: nat
  alert_Type :: AlertType
  Count :: go_int

record AlertMessage =
  msg_UUID :: uuid
  msg_Type :: AlertType
  Timestamp :: nat
  msg_Count :: go_int
  Reason :: string
  ReasonData :: Node

text \<open>
  The manager: \<open>alerts\<close> is the Go map from uuid to rule, holding the rules by value, in
  some iteration order. The listeners are represented by the messages handed to them.
\<close>

record AlertManager =
  alerts :: "(uuid \<times> AlertTest) list"

text \<open>The graph as the manager uses it: the nodes selected by a key.\<close>

record Graph =
  LookupNodesFromKey :: "string \<Rightarrow> Node list"

text \<open>
  The go-eval interpreter is outside the repository: given the metadata of a node, defined
  as constants, and an expression, it fails to compile, fails to run, or yields a value,
  read through its \<open>String\<close> method.
\<close>

datatype eval_result = compile_error | run_error | eval_value string

type_synonym evaluator = "(string \<times> mvalue) list \<Rightarrow> string \<Rightarrow> eval_result"

subsection \<open>EvalNodes\<close>

text \<open>
  The inner loop of \<open>EvalNodes\<close>, over the nodes selected for one rule. \<open>al\<close> is the loop
  variable of the outer loop, a copy of the rule held in the map: \<open>al.Count++\<close> changes the
  copy, which lives on through the remaining nodes of this rule. The result is the messages
  handed to the listeners, in order, and the panic that ended the loop, if any.
\<close>

fun eval_rule :: "evaluator \<Rightarrow> nat \<Rightarrow> AlertTest \<Rightarrow> Node list \<Rightarrow> AlertMessage list \<times> panic option" where
  "eval_rule ev now al [] = ([], None)"
| "eval_rule ev now al (n # ns) =
     (case ev (metadata n) (''('' @ Test al @ '') == true'') of
        compile_error \<Rightarrow> eval_rule ev now al ns
      | run_error \<Rightarrow> eval_rule ev now al ns
      | eval_value ret \<Rightarrow>
          (if ret = ''true'' then
             (let al' = al\<lparr>Count := Count al + 1\<rparr>
              in case alert_UUID al' of
                   None \<Rightarrow> ([], Some nil_dereference)
                 | Some u \<Rightarrow>
                     (let msg = \<lparr>msg_UUID = u, msg_Type = FIXED, Timestamp = now,
                                 msg_Count = Count al', Reason = Action al', ReasonData = n\<rparr>;
                          r = eval_rule ev now al' ns
                      in (msg # fst r, snd r)))
           else eval_rule ev now al ns))"

text \<open>The outer loop, over the entries of the map.\<close>

fun eval_rules :: "Graph \<Rightarrow> evaluator \<Rightarrow> nat \<Rightarrow> (uuid \<times> AlertTest) list
    \<Rightarrow> AlertMessage list \<times> panic option" where
  "eval_rules g ev now [] = ([], None)"
| "eval_rules g ev now (e # es) =
     (case eval_rule ev now (snd e) (LookupNodesFromKey g (Select (snd e))) of
        (ms, Some p) \<Rightarrow> (ms, Some p)
      | (ms, None) \<Rightarrow> (let r = eval_rules g ev now es in (ms @ fst r, snd r)))"

text \<open>
  \<open>EvalNodes\<close> reads the map under the read lock and writes nothing back to it: the
  manager afterwards is the manager before.
\<close>

definition EvalNodes :: "Graph \<Rightarrow> evaluator \<Rightarrow> nat \<Rightarrow> AlertManager
    \<Rightarrow> (AlertMessage list \<times> panic option) \<times> AlertManager" where
  "EvalNodes g ev now a = (eval_rules g ev now (alerts a), a)"

text \<open>\<open>OnNodeAdded\<close> and \<open>OnNodeUpdated\<close>, called with the graph that holds the node.\<close>

definition OnNodeAdded :: "Graph \<Rightarrow> evaluator \<Rightarrow> nat \<Rightarrow> AlertManager \<Rightarrow> Node
    \<Rightarrow> (AlertMessage list \<times> panic option) \<times> AlertManager" where
  "OnNodeAdded g ev now a n = EvalNodes g ev now a"

definition OnNodeUpdated :: "Graph \<Rightarrow> evaluator \<Rightarrow> nat \<Rightarrow> AlertManager \<Rightarrow> Node
    \<Rightarrow> (AlertMessage list \<times> panic option) \<times> AlertManager" where
  "OnNodeUpdated g ev now a n = EvalNodes g ev now a"

subsection \<open>The rule map and the watcher\<close>









subsection \<open>Example values\<close>

text \<open>
  A library that knows one identifier and its string form, a rule under that identifier
  whose test every node passes, its serialized form, and graphs of one and of two hosts.
\<close>

definition uuid_1 :: uuid where
  "uuid_1 = 0x6ba7b8109dad11d180b400c04fd430c8"

definition example_lib :: uuid_lib where
  "example_lib =
     \<lparr>uuid_String = (\<lambda>u. if u = uuid_1 then ''6ba7b810-9dad-11d1-80b4-00c04fd430c8'' else ''?''),
      ParseHex = (\<lambda>s. if s = ''6ba7b810-9dad-11d1-80b4-00c04fd430c8'' then Inr uuid_1
                       else Inl (external ''Invalid UUID string''))\<rparr>"

definition rule_1 :: AlertTest where
  "rule_1 = \<lparr>Name = ''hosts'', Description = ''a host appears'', Select = ''Type'',
      Test = ''Type == host'', Action = ''notify'', alert_UUID = Some uuid_1, CreateTime = 0,
      alert_Type = FIXED, Count = 0\<rparr>"


definition always_true :: evaluator where
  "always_true md e = eval_value ''true''"

definition host_2 :: Node where
  "host_2 = \<lparr>node_ID = ''h2'', metadata = [(''Type'', VString ''host''), (''Name'', VString ''h1'')]\<rparr>"

definition one_host :: Graph where
  "one_host = \<lparr>LookupNodesFromKey = (\<lambda>k. [host_node])\<rparr>"

definition two_hosts :: Graph where
  "two_hosts = \<lparr>LookupNodesFromKey = (\<lambda>k. [host_node, host_2])\<rparr>"

definition one_rule :: AlertManager where
  "one_rule = \<lparr>alerts = [(uuid_1, rule_1)]\<rparr>"






section \<open>The port loop\<close>

lemma sint_succ: "sint (x::go_int) < 2^63 - 1 \<Longrightarrow> sint (x + 1) = sint x + 1"
proof -
  assume a: "sint x < 2^63 - 1"
  have lo: "- (2^63) \<le> sint x" using sint_ge [of x] by simp
  have "sint (x + 1) = signed_take_bit 63 (sint x + 1)"
    by (simp add: sint_word_ariths)
  also have "\<dots> = sint x + 1"
    using a lo by (simp add: signed_take_bit_int_eq_self)
  finally show ?thesis .
qed

text \<open>
  Started at or below \<open>hi + 1\<close>, the loop returns the lowest port of \<open>[i, hi]\<close> without
  an entry, and nothing exactly when every port of \<open>[i, hi]\<close> has one.
\<close>

lemma alloc_loop_spec:
  "sint i \<le> sint hi + 1 \<Longrightarrow> sint hi < 2^63 - 1 \<Longrightarrow>
   (case alloc_loop m i (hi + 1) of
      None \<Rightarrow> (\<forall>p. sint i \<le> sint p \<and> sint p \<le> sint hi \<longrightarrow> map_of m p \<noteq> None)
    | Some p \<Rightarrow> sint i \<le> sint p \<and> sint p \<le> sint hi \<and> map_of m p = None \<and>
        (\<forall>q. sint i \<le> sint q \<and> sint q < sint p \<longrightarrow> map_of m q \<noteq> None))"
proof (induction m i "hi + 1" rule: alloc_loop.induct)
  case (1 m i)
  have shi: "sint (hi + 1) = sint hi + 1" using 1(3) by (rule sint_succ)
  show ?case
  proof (cases "i = hi + 1")
    case True
    then show ?thesis using shi by (auto simp add: alloc_loop.simps)
  next
    case ne: False
    then have "sint i \<noteq> sint (hi + 1)" by (auto dest: signed_word_eqI)
    with 1(2) shi have le: "sint i \<le> sint hi" by simp
    then have si: "sint (i + 1) = sint i + 1" using 1(3) by (intro sint_succ) simp
    show ?thesis
    proof (cases "map_of m i = None")
      case True
      then show ?thesis using ne le by (auto simp add: alloc_loop.simps)
    next
      case False
      have ih: "case alloc_loop m (i + 1) (hi + 1) of
         None \<Rightarrow> (\<forall>p. sint (i + 1) \<le> sint p \<and> sint p \<le> sint hi \<longrightarrow> map_of m p \<noteq> None)
       | Some p \<Rightarrow> sint (i + 1) \<le> sint p \<and> sint p \<le> sint hi \<and> map_of m p = None \<and>
          (\<forall>q. sint (i + 1) \<le> sint q \<and> sint q < sint p \<longrightarrow> map_of m q \<noteq> None)"
        using 1(1) [OF ne False] le si 1(3) by simp
      have step: "alloc_loop m i (hi + 1) = alloc_loop m (i + 1) (hi + 1)"
        using ne False by (subst alloc_loop.simps) auto
      have eqi: "\<And>p. sint p = sint i \<Longrightarrow> p = i" by (rule signed_word_eqI)
      show ?thesis
      proof (cases "alloc_loop m (i + 1) (hi + 1)")
        case None
        have "map_of m p \<noteq> None" if r: "sint i \<le> sint p \<and> sint p \<le> sint hi" for p
        proof (cases "sint p = sint i")
          case True
          then show ?thesis using False eqi by blast
        next
          case False
          then have "sint (i + 1) \<le> sint p \<and> sint p \<le> sint hi" using r si by simp
          then show ?thesis using ih None by simp
        qed
        then show ?thesis using step None by simp
      next
        case (Some p)
        have a: "sint (i + 1) \<le> sint p \<and> sint p \<le> sint hi \<and> map_of m p = None"
          and b: "\<And>q. sint (i + 1) \<le> sint q \<Longrightarrow> sint q < sint p \<Longrightarrow> map_of m q \<noteq> None"
          using ih Some by simp_all
        have "map_of m q \<noteq> None" if r: "sint i \<le> sint q \<and> sint q < sint p" for q
        proof (cases "sint q = sint i")
          case True
          then show ?thesis using False eqi by blast
        next
          case False
          then have "sint (i + 1) \<le> sint q" using r si by simp
          then show ?thesis using b r by blast
        qed
        then show ?thesis using step Some a si by simp
      qed
    qed
  qed
qed

section \<open>The allocator\<close>

lemma UUID_Start [simp]: "UUID (Start listen s) = UUID s"
  by (simp add: Start_def start_def split: option.split)

lemma Port_Start [simp]: "Port (Start listen s) = Port s"
  by (simp add: Start_def start_def split: option.split)

lemma Addr_Start [simp]: "Addr (Start listen s) = Addr s"
  by (simp add: Start_def start_def split: option.split)

lemma find_uuid_None: "find (\<lambda>e. uuid = UUID (snd e)) m = None \<longleftrightarrow> uuid \<notin> set (map (UUID \<circ> snd) m)"
  by (force simp: find_None_iff)

lemma Alloc_existing:
  assumes "find (\<lambda>e. uuid = UUID (snd e)) (allocated a) = Some e"
  shows "Alloc cfg listen a uuid p = ((Some (snd e), Some AgentAlreadyAllocated), a)"
  using assms by (simp add: Alloc_def)

lemma Alloc_fresh:
  assumes "find (\<lambda>e. uuid = UUID (snd e)) (allocated a) = None"
  shows "Alloc cfg listen a uuid p =
     (case alloc_loop (allocated a) (MinPort cfg) (MaxPort cfg + 1) of
        Some i \<Rightarrow>
          (let s = Start listen (SetFlowProbePathSetter
                     (NewSFlowAgent uuid (if bind_address cfg = [] then ''127.0.0.1'' else bind_address cfg) i) p)
           in ((Some s, None), a\<lparr>allocated := AList.update i s (allocated a)\<rparr>))
      | None \<Rightarrow> ((None, Some (errors_New ''sflow port exhausted'')), a))"
  using assms by (simp add: Alloc_def MinPort_def MaxPort_def Let_def)

lemma Alloc_exhausted:
  assumes fresh: "uuid \<notin> set (map UUID (Agents a))" and wf: "wf_port_range cfg"
    and full: "\<forall>q. in_port_range cfg q \<longrightarrow> \<not> is_free a q"
  shows "Alloc cfg listen a uuid p = ((None, Some (errors_New ''sflow port exhausted'')), a)"
proof -
  have f: "find (\<lambda>e. uuid = UUID (snd e)) (allocated a) = None"
    using fresh by (simp add: find_uuid_None Agents_def)
  have "alloc_loop (allocated a) (MinPort cfg) (MaxPort cfg + 1) = None"
  proof (cases "alloc_loop (allocated a) (MinPort cfg) (MaxPort cfg + 1)")
    case (Some i)
    then have "in_port_range cfg i \<and> is_free a i"
      using alloc_loop_spec [of "MinPort cfg" "MaxPort cfg" "allocated a"] wf
      by (simp add: wf_port_range_def in_port_range_def is_free_def)
    then show ?thesis using full by blast
  qed simp
  then show ?thesis by (simp add: Alloc_fresh [OF f])
qed

lemma Alloc_first_free:
  assumes fresh: "uuid \<notin> set (map UUID (Agents a))" and wf: "wf_port_range cfg"
    and free: "in_port_range cfg q" "is_free a q"
  shows "\<exists>s. Alloc cfg listen a uuid p = ((Some s, None), a\<lparr>allocated := AList.update (Port s) s (allocated a)\<rparr>)
     \<and> UUID s = uuid \<and> in_port_range cfg (Port s) \<and> is_free a (Port s)
     \<and> (\<forall>r. in_port_range cfg r \<and> sint r < sint (Port s) \<longrightarrow> \<not> is_free a r)"
proof -
  have f: "find (\<lambda>e. uuid = UUID (snd e)) (allocated a) = None"
    using fresh by (simp add: find_uuid_None Agents_def)
  show ?thesis
  proof (cases "alloc_loop (allocated a) (MinPort cfg) (MaxPort cfg + 1)")
    case None
    then have "\<forall>p. in_port_range cfg p \<longrightarrow> \<not> is_free a p"
      using alloc_loop_spec [of "MinPort cfg" "MaxPort cfg" "allocated a"] wf
      by (simp add: wf_port_range_def in_port_range_def is_free_def)
    then show ?thesis using free by blast
  next
    case (Some i)
    then have sp: "in_port_range cfg i \<and> is_free a i \<and>
        (\<forall>r. in_port_range cfg r \<and> sint r < sint i \<longrightarrow> \<not> is_free a r)"
      using alloc_loop_spec [of "MinPort cfg" "MaxPort cfg" "allocated a"] wf
      by (simp add: wf_port_range_def in_port_range_def is_free_def)
    then show ?thesis
      by (simp add: Alloc_fresh [OF f] Some Let_def SetFlowProbePathSetter_def NewSFlowAgent_def)
  qed
qed


lemma update_fresh: "map_of m k = None \<Longrightarrow> AList.update k v m = m @ [(k, v)]"
  by (induction m) (auto split: if_splits)

lemma fold_release_entry:
  "fold (release_entry u) xs m = filter (\<lambda>e. fst e \<notin> fst ` {x \<in> set xs. UUID (snd x) = u}) m"
proof (induction xs arbitrary: m)
  case Nil
  show ?case by simp
next
  case (Cons x xs)
  have "fold (release_entry u) (x # xs) m = fold (release_entry u) xs (release_entry u x m)"
    by simp
  also have "\<dots> = filter (\<lambda>e. fst e \<notin> fst ` {x \<in> set xs. UUID (snd x) = u}) (release_entry u x m)"
    by (rule Cons.IH)
  also have "\<dots> = filter (\<lambda>e. fst e \<notin> fst ` {y \<in> set (x # xs). UUID (snd y) = u}) m"
    by (auto simp: release_entry_def AList.delete_eq intro!: filter_cong)
  finally show ?case .
qed

lemma fold_delete_all:
  "fold (\<lambda>e m. AList.delete (fst e) m) xs m = filter (\<lambda>e. fst e \<notin> fst ` set xs) m"
proof (induction xs arbitrary: m)
  case Nil
  show ?case by simp
next
  case (Cons x xs)
  have "fold (\<lambda>e m. AList.delete (fst e) m) (x # xs) m
      = fold (\<lambda>e m. AList.delete (fst e) m) xs (AList.delete (fst x) m)"
    by simp
  also have "\<dots> = filter (\<lambda>e. fst e \<notin> fst ` set xs) (AList.delete (fst x) m)"
    by (rule Cons.IH)
  also have "\<dots> = filter (\<lambda>e. fst e \<notin> fst ` set (x # xs)) m"
    by (auto simp: AList.delete_eq intro!: filter_cong)
  finally show ?case .
qed

lemma ReleaseAll_empty: "allocated (ReleaseAll a) = []"
  by (simp add: ReleaseAll_def fold_delete_all)

lemma alloc_inv_filter:
  assumes "alloc_inv cfg a"
  shows "alloc_inv cfg (a\<lparr>allocated := filter P (allocated a)\<rparr>)"
proof -
  have "distinct (map (UUID \<circ> snd) (filter P (allocated a)))"
    using assms by (simp add: alloc_inv_def Agents_def distinct_map_filter)
  then show ?thesis
    using assms by (simp add: alloc_inv_def Agents_def distinct_map_filter list_all_iff)
qed

lemma alloc_inv_new: "alloc_inv cfg NewSFlowAgentAllocator"
  by (simp add: alloc_inv_def NewSFlowAgentAllocator_def Agents_def)

lemma alloc_inv_Release: "alloc_inv cfg a \<Longrightarrow> alloc_inv cfg (Release a uuid)"
  by (simp add: Release_def fold_release_entry alloc_inv_filter)

lemma alloc_inv_ReleaseAll: "alloc_inv cfg a \<Longrightarrow> alloc_inv cfg (ReleaseAll a)"
  by (simp add: ReleaseAll_def fold_delete_all alloc_inv_def Agents_def)

lemma alloc_inv_Alloc:
  assumes wf: "wf_port_range cfg" and inv: "alloc_inv cfg a"
  shows "alloc_inv cfg (snd (Alloc cfg listen a uuid p))"
proof (cases "find (\<lambda>e. uuid = UUID (snd e)) (allocated a)")
  case (Some e)
  then show ?thesis using inv by (simp add: Alloc_existing)
next
  case None
  note f = this
  show ?thesis
  proof (cases "alloc_loop (allocated a) (MinPort cfg) (MaxPort cfg + 1)")
    case None
    then show ?thesis using inv by (simp add: Alloc_fresh [OF f])
  next
    case (Some i)
    then have sp: "in_port_range cfg i \<and> map_of (allocated a) i = None"
      using alloc_loop_spec [of "MinPort cfg" "MaxPort cfg" "allocated a"] wf
      by (simp add: wf_port_range_def in_port_range_def)
    then have k: "i \<notin> fst ` set (allocated a)" by (simp add: map_of_eq_None_iff)
    have u: "uuid \<notin> set (map (UUID \<circ> snd) (allocated a))"
      using f by (simp add: find_uuid_None)
    show ?thesis
      using inv sp k u
      by (simp add: Alloc_fresh [OF f] Some Let_def update_fresh alloc_inv_def Agents_def
          SetFlowProbePathSetter_def NewSFlowAgent_def)
  qed
qed

lemma reachable_inv:
  assumes wf: "wf_port_range cfg"
  shows "reachable cfg a \<Longrightarrow> alloc_inv cfg a"
proof (induction rule: reachable.induct)
  case reach_new
  show ?case by (rule alloc_inv_new)
next
  case (reach_Alloc a listen uuid p)
  then show ?case by (simp add: alloc_inv_Alloc [OF wf])
next
  case (reach_Release a uuid)
  then show ?case by (simp add: alloc_inv_Release)
next
  case (reach_ReleaseAll a)
  then show ?case by (simp add: alloc_inv_ReleaseAll)
qed

subsection \<open>Port selection\<close>

text \<open>With distinct keys, \<open>Release\<close> removes exactly the entries of the uuid and keeps the others.\<close>

lemma Release_filter:
  assumes "distinct (map fst (allocated a))"
  shows "allocated (Release a uuid) = filter (\<lambda>e. UUID (snd e) \<noteq> uuid) (allocated a)"
proof -
  have "fst e \<notin> fst ` {x \<in> set (allocated a). UUID (snd x) = uuid} \<longleftrightarrow> UUID (snd e) \<noteq> uuid"
    if "e \<in> set (allocated a)" for e
  proof
    assume "fst e \<notin> fst ` {x \<in> set (allocated a). UUID (snd x) = uuid}"
    then show "UUID (snd e) \<noteq> uuid" using that by blast
  next
    assume ne: "UUID (snd e) \<noteq> uuid"
    show "fst e \<notin> fst ` {x \<in> set (allocated a). UUID (snd x) = uuid}"
    proof
      assume "fst e \<in> fst ` {x \<in> set (allocated a). UUID (snd x) = uuid}"
      then obtain x where x: "x \<in> set (allocated a)" "UUID (snd x) = uuid" "fst x = fst e"
        by auto
      from assms x(1) that x(3) have "x = e"
        by (metis eq_key_imp_eq_value prod.collapse)
      with x(2) ne show False by simp
    qed
  qed
  then show ?thesis
    by (simp add: Release_def fold_release_entry cong: filter_cong)
qed

text \<open>
  The claim as stated fails on an inverted range. With only \<open>sflow.port_min = 7000\<close>
  configured, \<open>port_max\<close> takes its default 6355 and no port lies in the range. \<open>Alloc\<close> of
  a new uuid does not fail with \<open>sflow port exhausted\<close>: it succeeds on port 7000, which
  is outside the range, because the loop \<open>for i := 7000; i != 6356; i++\<close> starts above its
  stop value.
\<close>

theorem Alloc_inverted_range_counterexample:
  "MinPort \<lparr>bind_address = [], port_min = 7000, port_max = 0\<rparr> = 7000
   \<and> MaxPort \<lparr>bind_address = [], port_min = 7000, port_max = 0\<rparr> = 6355
   \<and> ''br-1'' \<notin> set (map UUID (Agents NewSFlowAgentAllocator))
   \<and> map_option Port (fst (fst (Alloc \<lparr>bind_address = [], port_min = 7000, port_max = 0\<rparr>
        listen_ok NewSFlowAgentAllocator ''br-1'' None))) = Some 7000
   \<and> snd (fst (Alloc \<lparr>bind_address = [], port_min = 7000, port_max = 0\<rparr>
        listen_ok NewSFlowAgentAllocator ''br-1'' None)) = None
   \<and> \<not> in_port_range \<lparr>bind_address = [], port_min = 7000, port_max = 0\<rparr> 7000"
  by (simp add: Alloc_def alloc_loop.simps NewSFlowAgentAllocator_def Agents_def Let_def
      SetFlowProbePathSetter_def NewSFlowAgent_def in_port_range_def MinPort_def MaxPort_def)

text \<open>
  Claim C2, amended. When the configured range is well formed (\<open>MinPort \<le> MaxPort\<close>, and
  \<open>MaxPort + 1\<close> does not overflow) and the uuid has no agent yet, \<open>Alloc\<close> selects
  first-fit ascending in \<open>[MinPort, MaxPort]\<close>: when some port of the range is free, it
  succeeds with an agent of that uuid on a free port of the range below which every port
  of the range is allocated, and stores it at that port; when every port of the range is
  allocated it fails with the error \<open>sflow port exhausted\<close> and leaves the allocator as it
  was. \<open>Release\<close> removes the agents of the uuid and no other. With any two-port range
  \<open>[lo, lo + 1]\<close> (bounds other than 0, which stands for the default) and four distinct
  uuids: the first two allocations succeed on \<open>lo\<close> and \<open>lo + 1\<close>, the third fails with
  \<open>sflow port exhausted\<close>, and after \<open>Release\<close> of the first uuid the fourth is allocated
  on \<open>lo\<close>, the second uuid keeping \<open>lo + 1\<close>.
\<close>

theorem Alloc_first_fit:
  assumes wf: "wf_port_range cfg" and fresh: "uuid \<notin> set (map UUID (Agents a))"
  shows "(if \<exists>q. in_port_range cfg q \<and> is_free a q
          then \<exists>s. Alloc cfg listen a uuid p =
                     ((Some s, None), a\<lparr>allocated := AList.update (Port s) s (allocated a)\<rparr>)
                 \<and> UUID s = uuid \<and> in_port_range cfg (Port s) \<and> is_free a (Port s)
                 \<and> (\<forall>r. in_port_range cfg r \<and> sint r < sint (Port s) \<longrightarrow> \<not> is_free a r)
          else Alloc cfg listen a uuid p = ((None, Some (errors_New ''sflow port exhausted'')), a))
       \<and> (distinct (map fst (allocated b)) \<longrightarrow>
            allocated (Release b uuid') = filter (\<lambda>e. UUID (snd e) \<noteq> uuid') (allocated b))
       \<and> (distinct [u1, u2, u3, u4] \<and> lo \<noteq> 0 \<and> lo + 1 \<noteq> 0 \<longrightarrow>
           (let c = \<lparr>bind_address = addr, port_min = lo, port_max = lo + 1\<rparr>;
                r1 = Alloc c listen' NewSFlowAgentAllocator u1 p1;
                r2 = Alloc c listen' (snd r1) u2 p2;
                r3 = Alloc c listen' (snd r2) u3 p3;
                r4 = Alloc c listen' (Release (snd r3) u1) u4 p4
            in map_option Port (fst (fst r1)) = Some lo \<and> snd (fst r1) = None \<and>
               map_option Port (fst (fst r2)) = Some (lo + 1) \<and> snd (fst r2) = None \<and>
               fst r3 = (None, Some (errors_New ''sflow port exhausted'')) \<and>
               map_option Port (fst (fst r4)) = Some lo \<and> snd (fst r4) = None \<and>
               map (\<lambda>s. (UUID s, Port s)) (Agents (snd r4)) = [(u2, lo + 1), (u4, lo)]))"
proof (intro conjI impI)
  show "if \<exists>q. in_port_range cfg q \<and> is_free a q
          then \<exists>s. Alloc cfg listen a uuid p =
                     ((Some s, None), a\<lparr>allocated := AList.update (Port s) s (allocated a)\<rparr>)
                 \<and> UUID s = uuid \<and> in_port_range cfg (Port s) \<and> is_free a (Port s)
                 \<and> (\<forall>r. in_port_range cfg r \<and> sint r < sint (Port s) \<longrightarrow> \<not> is_free a r)
          else Alloc cfg listen a uuid p = ((None, Some (errors_New ''sflow port exhausted'')), a)"
  proof (cases "\<exists>q. in_port_range cfg q \<and> is_free a q")
    case True
    then obtain q where "in_port_range cfg q" "is_free a q" by blast
    from Alloc_first_free [OF fresh wf this] True show ?thesis by simp
  next
    case False
    then have "\<forall>q. in_port_range cfg q \<longrightarrow> \<not> is_free a q" by blast
    from Alloc_exhausted [OF fresh wf this] False show ?thesis by simp
  qed
next
  assume "distinct (map fst (allocated b))"
  then show "allocated (Release b uuid') = filter (\<lambda>e. UUID (snd e) \<noteq> uuid') (allocated b)"
    by (rule Release_filter)
next
  assume "distinct [u1, u2, u3, u4] \<and> lo \<noteq> 0 \<and> lo + 1 \<noteq> 0"
  then show "let c = \<lparr>bind_address = addr, port_min = lo, port_max = lo + 1\<rparr>;
                r1 = Alloc c listen' NewSFlowAgentAllocator u1 p1;
                r2 = Alloc c listen' (snd r1) u2 p2;
                r3 = Alloc c listen' (snd r2) u3 p3;
                r4 = Alloc c listen' (Release (snd r3) u1) u4 p4
            in map_option Port (fst (fst r1)) = Some lo \<and> snd (fst r1) = None \<and>
               map_option Port (fst (fst r2)) = Some (lo + 1) \<and> snd (fst r2) = None \<and>
               fst r3 = (None, Some (errors_New ''sflow port exhausted'')) \<and>
               map_option Port (fst (fst r4)) = Some lo \<and> snd (fst r4) = None \<and>
               map (\<lambda>s. (UUID s, Port s)) (Agents (snd r4)) = [(u2, lo + 1), (u4, lo)]"
    by (auto simp add: Alloc_def alloc_loop.simps Let_def NewSFlowAgentAllocator_def Release_def
      release_entry_def SetFlowProbePathSetter_def NewSFlowAgent_def Agents_def)
qed

text \<open>
  The theorem at a new allocator with the range 6345..6346 and the uuids br-1 to br-4;
  \<open>Release\<close> is taken in the state after the first allocation.
\<close>

theorem Alloc_first_fit_witness:
  "wf_port_range \<lparr>bind_address = [], port_min = 6345, port_max = 6346\<rparr>
   \<and> ''br-1'' \<notin> set (map UUID (Agents NewSFlowAgentAllocator))
   \<and> (\<exists>q. in_port_range \<lparr>bind_address = [], port_min = 6345, port_max = 6346\<rparr> q
          \<and> is_free NewSFlowAgentAllocator q)
   \<and> (\<exists>s. Alloc \<lparr>bind_address = [], port_min = 6345, port_max = 6346\<rparr> listen_ok
              NewSFlowAgentAllocator ''br-1'' None =
            ((Some s, None), NewSFlowAgentAllocator\<lparr>allocated := AList.update (Port s) s (allocated NewSFlowAgentAllocator)\<rparr>)
          \<and> UUID s = ''br-1'')
   \<and> distinct (map fst (allocated (snd (Alloc \<lparr>bind_address = [], port_min = 6345, port_max = 6346\<rparr>
         listen_ok NewSFlowAgentAllocator ''br-1'' None))))
   \<and> allocated (Release (snd (Alloc \<lparr>bind_address = [], port_min = 6345, port_max = 6346\<rparr>
         listen_ok NewSFlowAgentAllocator ''br-1'' None)) ''br-1'') = []
   \<and> distinct [''br-1'', ''br-2'', ''br-3'', ''br-4''] \<and> (6345 :: go_int) \<noteq> 0 \<and> (6345 :: go_int) + 1 \<noteq> 0
   \<and> fst (Alloc \<lparr>bind_address = [], port_min = 6345, port_max = 6345 + 1\<rparr> listen_ok
             (snd (Alloc \<lparr>bind_address = [], port_min = 6345, port_max = 6345 + 1\<rparr> listen_ok
               (snd (Alloc \<lparr>bind_address = [], port_min = 6345, port_max = 6345 + 1\<rparr> listen_ok
                  NewSFlowAgentAllocator ''br-1'' None)) ''br-2'' None)) ''br-3'' None)
       = (None, Some (errors_New ''sflow port exhausted''))"
proof -
  let ?c = "\<lparr>bind_address = [], port_min = 6345, port_max = 6346\<rparr>"
  let ?c' = "\<lparr>bind_address = [], port_min = 6345, port_max = 6345 + 1\<rparr>"
  let ?b = "snd (Alloc ?c listen_ok NewSFlowAgentAllocator ''br-1'' None)"
  have w: "wf_port_range ?c"
    by (simp add: wf_port_range_def MinPort_def MaxPort_def)
  have f: "''br-1'' \<notin> set (map UUID (Agents NewSFlowAgentAllocator))"
    by (simp add: Agents_def NewSFlowAgentAllocator_def)
  have q: "in_port_range ?c 6345 \<and> is_free NewSFlowAgentAllocator 6345"
    by (simp add: in_port_range_def MinPort_def MaxPort_def is_free_def NewSFlowAgentAllocator_def)
  then have e: "\<exists>q. in_port_range ?c q \<and> is_free NewSFlowAgentAllocator q" by blast
  have k: "distinct (map fst (allocated ?b))"
    by (simp add: Alloc_def alloc_loop.simps NewSFlowAgentAllocator_def Let_def)
  have d: "distinct [''br-1'', ''br-2'', ''br-3'', ''br-4''] \<and> (6345 :: go_int) \<noteq> 0 \<and> (6345 :: go_int) + 1 \<noteq> 0"
    by simp
  note t = Alloc_first_fit [OF w f, where listen = listen_ok and p = None
      and b = ?b and uuid' = "''br-1''"
      and ?u1.0 = "''br-1''" and ?u2.0 = "''br-2''" and ?u3.0 = "''br-3''" and ?u4.0 = "''br-4''"
      and lo = 6345 and addr = "[]"
      and listen' = listen_ok and ?p1.0 = None and ?p2.0 = None and ?p3.0 = None and ?p4.0 = None]
  from t have t1: "\<exists>s. Alloc ?c listen_ok NewSFlowAgentAllocator ''br-1'' None =
            ((Some s, None), NewSFlowAgentAllocator\<lparr>allocated := AList.update (Port s) s (allocated NewSFlowAgentAllocator)\<rparr>)
          \<and> UUID s = ''br-1''"
    using e by (simp only: if_True) blast
  from t k have "allocated (Release ?b ''br-1'') = filter (\<lambda>e. UUID (snd e) \<noteq> ''br-1'') (allocated ?b)"
    by blast
  then have t2: "allocated (Release ?b ''br-1'') = []"
    by (simp add: Alloc_def alloc_loop.simps NewSFlowAgentAllocator_def Let_def
        SetFlowProbePathSetter_def NewSFlowAgent_def)
  from t [THEN conjunct2, THEN conjunct2, THEN mp, OF d] have t3: "fst (Alloc ?c' listen_ok
             (snd (Alloc ?c' listen_ok
               (snd (Alloc ?c' listen_ok
                  NewSFlowAgentAllocator ''br-1'' None)) ''br-2'' None)) ''br-3'' None)
       = (None, Some (errors_New ''sflow port exhausted''))"
    by (simp only: Let_def)
  show ?thesis using w f e t1 k t2 d t3 by blast
qed

subsection \<open>The allocator invariant\<close>

lemma find_uuid_Some:
  "uuid \<in> set (map (UUID \<circ> snd) m) \<Longrightarrow> \<exists>e \<in> set m. UUID (snd e) = uuid \<and> find (\<lambda>e. uuid = UUID (snd e)) m = Some e"
  by (induction m) auto

text \<open>
  The claim as stated fails when the configured range is inverted. With only
  \<open>sflow.port_min = 7000\<close> configured (\<open>port_max\<close> defaults to 6355), the state after one
  \<open>Alloc\<close> on a new allocator is reachable and holds an agent on port 7000, which does
  not lie in \<open>[MinPort, MaxPort]\<close>.
\<close>

theorem allocator_port_outside_range_counterexample:
  "reachable \<lparr>bind_address = [], port_min = 7000, port_max = 0\<rparr>
     (snd (Alloc \<lparr>bind_address = [], port_min = 7000, port_max = 0\<rparr> listen_ok
            NewSFlowAgentAllocator ''br-1'' None))
   \<and> map Port (Agents (snd (Alloc \<lparr>bind_address = [], port_min = 7000, port_max = 0\<rparr> listen_ok
            NewSFlowAgentAllocator ''br-1'' None))) = [7000]
   \<and> \<not> in_port_range \<lparr>bind_address = [], port_min = 7000, port_max = 0\<rparr> 7000"
proof -
  let ?c = "\<lparr>bind_address = [], port_min = 7000, port_max = 0\<rparr>"
  have r: "reachable ?c (snd (Alloc ?c listen_ok NewSFlowAgentAllocator ''br-1'' None))"
    by (intro reachable.intros)
  have p: "map Port (Agents (snd (Alloc ?c listen_ok NewSFlowAgentAllocator ''br-1'' None))) = [7000]"
    by (simp add: Alloc_def alloc_loop.simps NewSFlowAgentAllocator_def Agents_def Let_def
        SetFlowProbePathSetter_def NewSFlowAgent_def)
  have n: "\<not> in_port_range ?c 7000"
    by (simp add: in_port_range_def MinPort_def MaxPort_def)
  show ?thesis using r p n by blast
qed

text \<open>
  Claim C8, amended. Under one configuration with a well-formed range (\<open>MinPort \<le> MaxPort\<close>,
  and \<open>MaxPort + 1\<close> does not overflow), in every state the allocator reaches from a new
  one by \<open>Alloc\<close>, \<open>Release\<close> and \<open>ReleaseAll\<close>: no two agents share a uuid, the ports of
  the agents are pairwise distinct, every port lies in \<open>[MinPort, MaxPort]\<close>, and \<open>Alloc\<close> of
  a uuid that already has an agent returns that agent together with the sentinel
  \<open>AgentAlreadyAllocated\<close> and leaves the allocator as it was.
\<close>

theorem allocator_invariant:
  assumes wf: "wf_port_range cfg" and r: "reachable cfg a"
  shows "distinct (map UUID (Agents a)) \<and> distinct (map Port (Agents a))
       \<and> list_all (\<lambda>s. in_port_range cfg (Port s)) (Agents a)
       \<and> (uuid \<in> set (map UUID (Agents a)) \<longrightarrow>
            (\<exists>s. s \<in> set (Agents a) \<and> UUID s = uuid
               \<and> Alloc cfg listen a uuid p = ((Some s, Some AgentAlreadyAllocated), a)))"
proof -
  have inv: "alloc_inv cfg a" using wf r by (rule reachable_inv)
  have ports: "map Port (Agents a) = map fst (allocated a)"
    using inv by (auto simp: alloc_inv_def Agents_def list_all_iff)
  have d1: "distinct (map UUID (Agents a))" using inv by (simp add: alloc_inv_def)
  have d2: "distinct (map Port (Agents a))" using inv ports by (simp add: alloc_inv_def)
  have rg: "list_all (\<lambda>s. in_port_range cfg (Port s)) (Agents a)"
    using inv by (auto simp: alloc_inv_def Agents_def list_all_iff)
  have ex: "\<exists>s. s \<in> set (Agents a) \<and> UUID s = uuid
               \<and> Alloc cfg listen a uuid p = ((Some s, Some AgentAlreadyAllocated), a)"
    if "uuid \<in> set (map UUID (Agents a))"
  proof -
    from that have "uuid \<in> set (map (UUID \<circ> snd) (allocated a))" by (simp add: Agents_def)
    from find_uuid_Some [OF this] obtain e where e: "e \<in> set (allocated a)" "UUID (snd e) = uuid"
      "find (\<lambda>e. uuid = UUID (snd e)) (allocated a) = Some e" by blast
    have "snd e \<in> set (Agents a)" using e(1) by (auto simp: Agents_def)
    then show ?thesis using e(2) Alloc_existing [OF e(3)] by blast
  qed
  show ?thesis using d1 d2 rg ex by blast
qed

text \<open>The theorem in the state after one allocation of br-1 in the range 6345..6346.\<close>

theorem allocator_invariant_witness:
  "wf_port_range \<lparr>bind_address = [], port_min = 6345, port_max = 6346\<rparr>
   \<and> reachable \<lparr>bind_address = [], port_min = 6345, port_max = 6346\<rparr>
       (snd (Alloc \<lparr>bind_address = [], port_min = 6345, port_max = 6346\<rparr> (\<lambda>a p. None)
              NewSFlowAgentAllocator ''br-1'' None))
   \<and> ''br-1'' \<in> set (map UUID (Agents
       (snd (Alloc \<lparr>bind_address = [], port_min = 6345, port_max = 6346\<rparr> (\<lambda>a p. None)
              NewSFlowAgentAllocator ''br-1'' None))))
   \<and> distinct (map Port (Agents
       (snd (Alloc \<lparr>bind_address = [], port_min = 6345, port_max = 6346\<rparr> (\<lambda>a p. None)
              NewSFlowAgentAllocator ''br-1'' None))))
   \<and> (\<exists>s. UUID s = ''br-1''
        \<and> Alloc \<lparr>bind_address = [], port_min = 6345, port_max = 6346\<rparr> (\<lambda>a p. None)
            (snd (Alloc \<lparr>bind_address = [], port_min = 6345, port_max = 6346\<rparr> (\<lambda>a p. None)
              NewSFlowAgentAllocator ''br-1'' None)) ''br-1'' None
          = ((Some s, Some AgentAlreadyAllocated),
             snd (Alloc \<lparr>bind_address = [], port_min = 6345, port_max = 6346\<rparr> (\<lambda>a p. None)
              NewSFlowAgentAllocator ''br-1'' None)))"
proof -
  let ?c = "\<lparr>bind_address = [], port_min = 6345, port_max = 6346\<rparr>"
  let ?a = "snd (Alloc ?c (\<lambda>a p. None) NewSFlowAgentAllocator ''br-1'' None)"
  have w: "wf_port_range ?c"
    by (simp add: wf_port_range_def MinPort_def MaxPort_def)
  have r: "reachable ?c ?a"
    by (intro reachable.intros)
  have m: "''br-1'' \<in> set (map UUID (Agents ?a))"
    by (simp add: Alloc_def alloc_loop.simps Let_def NewSFlowAgentAllocator_def Agents_def
        SetFlowProbePathSetter_def NewSFlowAgent_def)
  note t = allocator_invariant [OF w r, where uuid = "''br-1''" and listen = "\<lambda>a p. None" and p = None]
  show ?thesis using w r m t by blast
qed

subsection \<open>Bind failures\<close>

text \<open>
  The claim as stated fails: \<open>Start\<close> has no result. With a listener that refuses every
  bind, \<open>Alloc\<close>, the caller of \<open>Start\<close>, still returns the new agent with a nil error
  and keeps it allocated on port 6345.
\<close>

theorem bind_failure_counterexample:
  "listen_fails ''127.0.0.1'' 6345 = Some (external ''listen udp: bind: address already in use'')
   \<and> fst (Alloc one_port listen_fails NewSFlowAgentAllocator ''br-1'' None)
       = (Some (NewSFlowAgent ''br-1'' ''127.0.0.1'' 6345), None)
   \<and> map Port (Agents (snd (Alloc one_port listen_fails NewSFlowAgentAllocator ''br-1'' None))) = [6345]"
  by (simp add: Alloc_def alloc_loop.simps NewSFlowAgentAllocator_def Agents_def Let_def
      SetFlowProbePathSetter_def NewSFlowAgent_def Start_def start_def one_port_def listen_fails_def)

text \<open>
  Claim C3, amended. When the bind of an agent's address and port fails with \<open>err\<close>,
  \<open>start\<close> returns \<open>err\<close> and leaves the agent as it was (not running), inside the spawned
  goroutine: \<open>Start\<close> gives back the same agent and no error. Its caller \<open>Alloc\<close>, for a uuid
  without an agent and the port the loop selects, returns that agent with a nil error and
  stores it at the port.
\<close>

theorem bind_error_dropped:
  assumes "listen (Addr sfa) (Port sfa) = Some err"
  shows "start listen sfa = (Some err, sfa) \<and> Start listen sfa = sfa
       \<and> (uuid \<notin> set (map UUID (Agents a))
          \<and> alloc_loop (allocated a) (MinPort cfg) (MaxPort cfg + 1) = Some (Port sfa)
          \<and> sfa = SetFlowProbePathSetter
                (NewSFlowAgent uuid (if bind_address cfg = [] then ''127.0.0.1'' else bind_address cfg)
                   (Port sfa)) p
          \<longrightarrow> Alloc cfg listen a uuid p =
                ((Some sfa, None), a\<lparr>allocated := AList.update (Port sfa) sfa (allocated a)\<rparr>))"
proof (intro conjI impI)
  show s: "start listen sfa = (Some err, sfa)"
    using assms by (simp add: start_def)
  then show t: "Start listen sfa = sfa"
    by (simp add: Start_def)
  assume a: "uuid \<notin> set (map UUID (Agents a))
          \<and> alloc_loop (allocated a) (MinPort cfg) (MaxPort cfg + 1) = Some (Port sfa)
          \<and> sfa = SetFlowProbePathSetter
                (NewSFlowAgent uuid (if bind_address cfg = [] then ''127.0.0.1'' else bind_address cfg)
                   (Port sfa)) p"
  then have f: "find (\<lambda>e. uuid = UUID (snd e)) (allocated a) = None"
    by (simp add: find_uuid_None Agents_def)
  have l: "alloc_loop (allocated a) (MinPort cfg) (MaxPort cfg + 1) = Some (Port sfa)"
    using a by simp
  have e: "SetFlowProbePathSetter
                (NewSFlowAgent uuid (if bind_address cfg = [] then ''127.0.0.1'' else bind_address cfg)
                   (Port sfa)) p = sfa"
    using a by simp
  show "Alloc cfg listen a uuid p =
                ((Some sfa, None), a\<lparr>allocated := AList.update (Port sfa) sfa (allocated a)\<rparr>)"
    by (simp add: Alloc_fresh [OF f] l e t Let_def)
qed

text \<open>The theorem at the first allocation of br-1 on the one port 6345, every bind refused.\<close>

theorem bind_error_dropped_witness:
  "listen_fails (Addr (NewSFlowAgent ''br-1'' ''127.0.0.1'' 6345)) (Port (NewSFlowAgent ''br-1'' ''127.0.0.1'' 6345))
      = Some (external ''listen udp: bind: address already in use'')
   \<and> start listen_fails (NewSFlowAgent ''br-1'' ''127.0.0.1'' 6345)
      = (Some (external ''listen udp: bind: address already in use''), NewSFlowAgent ''br-1'' ''127.0.0.1'' 6345)
   \<and> Start listen_fails (NewSFlowAgent ''br-1'' ''127.0.0.1'' 6345) = NewSFlowAgent ''br-1'' ''127.0.0.1'' 6345
   \<and> Alloc one_port listen_fails NewSFlowAgentAllocator ''br-1'' None
      = ((Some (NewSFlowAgent ''br-1'' ''127.0.0.1'' 6345), None),
         \<lparr>allocated = [(6345, NewSFlowAgent ''br-1'' ''127.0.0.1'' 6345)]\<rparr>)"
proof -
  let ?s = "NewSFlowAgent ''br-1'' ''127.0.0.1'' 6345"
  have h: "listen_fails (Addr ?s) (Port ?s) = Some (external ''listen udp: bind: address already in use'')"
    by (simp add: listen_fails_def)
  have p: "Port ?s = 6345" by (simp add: NewSFlowAgent_def)
  have c: "''br-1'' \<notin> set (map UUID (Agents NewSFlowAgentAllocator))
          \<and> alloc_loop (allocated NewSFlowAgentAllocator) (MinPort one_port) (MaxPort one_port + 1) = Some (Port ?s)
          \<and> ?s = SetFlowProbePathSetter
                (NewSFlowAgent ''br-1'' (if bind_address one_port = [] then ''127.0.0.1'' else bind_address one_port)
                   (Port ?s)) None"
    by (simp add: Agents_def NewSFlowAgentAllocator_def alloc_loop.simps MinPort_def MaxPort_def
        one_port_def SetFlowProbePathSetter_def NewSFlowAgent_def)
  note t = bind_error_dropped [where listen = listen_fails and sfa = ?s
      and err = "external ''listen udp: bind: address already in use''"
      and uuid = "''br-1''" and a = NewSFlowAgentAllocator and cfg = one_port and p = None, OF h]
  from t c have "Alloc one_port listen_fails NewSFlowAgentAllocator ''br-1'' None =
      ((Some ?s, None), NewSFlowAgentAllocator\<lparr>allocated :=
          AList.update (Port ?s) ?s (allocated NewSFlowAgentAllocator)\<rparr>)"
    by blast
  then have r: "Alloc one_port listen_fails NewSFlowAgentAllocator ''br-1'' None
      = ((Some ?s, None), \<lparr>allocated = [(6345, ?s)]\<rparr>)"
    by (simp add: p NewSFlowAgentAllocator_def)
  show ?thesis using h t r by blast
qed

section \<open>The probe handler\<close>

lemma retrieve_sent: "sent (snd (retrieveSFlowProbeUUID c i)) = sent c @ [[selectOp]]"
  by (simp add: retrieveSFlowProbeUUID_def Exec_def split: sum.split option.split)

text \<open>
  Claim C10. A node is not an OVS bridge exactly when its \<open>Type\<close> is not the string
  \<open>ovsbridge\<close> or its \<open>UUID\<close> is the empty string. For every such node \<open>RegisterProbe\<close> and
  \<open>UnregisterProbe\<close> return nil and give back the handler as it was: the allocator holds
  the same agents and no transaction is sent to the switch.
\<close>

theorem non_bridge_untouched:
  "(\<not> isOvsBridge n \<longleftrightarrow>
      (Metadata n ''Type'' \<noteq> Some (VString ''ovsbridge'') \<or> Metadata n ''UUID'' = Some (VString [])))
   \<and> (\<not> isOvsBridge n \<longrightarrow>
        RegisterProbe g cfg listen h n = (Inr None, h) \<and> UnregisterProbe h n = (Inr None, h))"
  by (auto simp: RegisterProbe_def UnregisterProbe_def isOvsBridge_def)

text \<open>The theorem at a host node, and at a node of type ovsbridge whose uuid is empty.\<close>

theorem non_bridge_untouched_witness:
  "\<not> isOvsBridge host_node
   \<and> RegisterProbe host_topology one_port listen_ok (NewOvsSFlowProbesHandler empty_switch) host_node
       = (Inr None, NewOvsSFlowProbesHandler empty_switch)
   \<and> UnregisterProbe (NewOvsSFlowProbesHandler empty_switch) host_node
       = (Inr None, NewOvsSFlowProbesHandler empty_switch)
   \<and> \<not> isOvsBridge (bridge_node [])
   \<and> RegisterProbe host_topology one_port listen_ok (NewOvsSFlowProbesHandler empty_switch) (bridge_node [])
       = (Inr None, NewOvsSFlowProbesHandler empty_switch)
   \<and> UnregisterProbe (NewOvsSFlowProbesHandler empty_switch) (bridge_node [])
       = (Inr None, NewOvsSFlowProbesHandler empty_switch)"
proof -
  have a: "\<not> isOvsBridge host_node"
    by (simp add: isOvsBridge_def Metadata_def host_node_def)
  have b: "\<not> isOvsBridge (bridge_node [])"
    by (simp add: isOvsBridge_def Metadata_def bridge_node_def)
  show ?thesis
    using a b
      non_bridge_untouched [of host_node host_topology one_port listen_ok "NewOvsSFlowProbesHandler empty_switch"]
      non_bridge_untouched [of "bridge_node []" host_topology one_port listen_ok "NewOvsSFlowProbesHandler empty_switch"]
    by blast
qed

text \<open>
  \<open>UnregisterProbe\<close> never touches the allocator: the agent of the bridge stays
  allocated, on its port, until \<open>Stop\<close> releases every agent.
\<close>

lemma UnregisterProbe_keeps_allocator:
  "allocator (snd (UnregisterProbe h n)) = allocator h"
  by (simp add: UnregisterProbe_def unregisterProbe_def split: option.split mvalue.split prod.split)




lemmas example_defs = bridge_node_def host_node_def host_topology_def empty_switch_def
  one_port_def listen_ok_def listen_fails_def tagged_switch_def

lemmas handler_defs = RegisterProbe_def RegisterProbeOnBridge_def UnregisterProbe_def
  unregisterProbe_def registerSFlowProbeOnBridge_def UnregisterSFlowProbeFromBridge_def
  retrieveSFlowProbeUUID_def Exec_def isOvsBridge_def Metadata_def compareProbeID_def
  NewOvsSFlowProbesHandler_def probeID_def newInsertSFlowProbeOP_def





text \<open>
  Claim C5 fails on the code. With one port, bridge br-1 is registered on a switch that
  holds a row tagged with its probe-id, then unregistered. \<open>UnregisterProbe\<close> returns nil
  and clears the bridge's \<open>sflow\<close> column, but the agent of br-1 stays allocated on port
  6345: \<open>Release\<close> is not called. A later \<open>RegisterProbe\<close> of bridge br-2 fails with
  \<open>sflow port exhausted\<close>.
\<close>

theorem UnregisterProbe_leaks_agent:
  "fst (UnregisterProbe
          (snd (RegisterProbe host_topology one_port listen_ok
                  (NewOvsSFlowProbesHandler tagged_switch) (bridge_node ''br-1'')))
          (bridge_node ''br-1'')) = Inr None
   \<and> sent (ovsClient (snd (UnregisterProbe
          (snd (RegisterProbe host_topology one_port listen_ok
                  (NewOvsSFlowProbesHandler tagged_switch) (bridge_node ''br-1'')))
          (bridge_node ''br-1''))))
       = [[selectOp], [updateBridgeOp ''br-1'' (OvsUUID ''row-1'')],
          [selectOp], [updateBridgeOp ''br-1'' (OvsSet [])]]
   \<and> map (\<lambda>s. (UUID s, Port s)) (Agents (allocator (snd (UnregisterProbe
          (snd (RegisterProbe host_topology one_port listen_ok
                  (NewOvsSFlowProbesHandler tagged_switch) (bridge_node ''br-1'')))
          (bridge_node ''br-1'')))))
       = [(''br-1'', 6345)]
   \<and> map (\<lambda>s. (UUID s, Port s)) (Agents (Release (allocator
          (snd (RegisterProbe host_topology one_port listen_ok
                  (NewOvsSFlowProbesHandler tagged_switch) (bridge_node ''br-1'')))) ''br-1''))
       = []
   \<and> fst (RegisterProbe host_topology one_port listen_ok
          (snd (UnregisterProbe
             (snd (RegisterProbe host_topology one_port listen_ok
                     (NewOvsSFlowProbesHandler tagged_switch) (bridge_node ''br-1'')))
             (bridge_node ''br-1'')))
          (bridge_node ''br-2''))
       = Inr (Some (errors_New ''sflow port exhausted''))"
  by (simp add: example_defs handler_defs Alloc_def alloc_loop.simps NewSFlowAgentAllocator_def
      Let_def SetFlowProbePathSetter_def NewSFlowAgent_def Agents_def Release_def release_entry_def)
section \<open>The path cache\<close>

text \<open>
  The claim as stated fails when the channel is full: with 200 requests pending, a cache
  miss does not return the empty path. The send \<open>o.cacheUpdaterChan <- index\<close> has no
  \<open>default\<close> branch, so the call waits for the updater.
\<close>

theorem GetProbePath_full_counterexample:
  "map_of (cache full_handler) (FormatInt (sint (7 :: 64 word))) = None
   \<and> length (chan_buf (cacheUpdaterChan full_handler)) = chan_cap (cacheUpdaterChan full_handler)
   \<and> GetProbePath full_handler 7 = Blocks
   \<and> GetProbePath full_handler 7 \<noteq> Returns ([], full_handler)"
  by (simp add: GetProbePath_def chan_send_def full_handler_def NewOvsSFlowProbesHandler_cached_def
      make_chan_def)

text \<open>
  Claim C4, amended. A cached path is returned and the handler is left as it was. On a
  cache miss, while the channel has room, \<open>GetProbePath\<close> returns the empty path and
  appends the index to the channel; when the channel is full the call waits, and nothing
  is dropped. Once the updater has received the index and found a path for it, the next
  \<open>GetProbePath\<close> for the index returns that path; when it found none, the index is still
  not cached and the next call, the channel holding no more than its capacity, sends the
  index again and returns the empty path.
\<close>

theorem GetProbePath_miss:
  "(map_of (cache h) (FormatInt (sint index)) = Some path \<longrightarrow>
      GetProbePath h index = Returns (path, h))
   \<and> (map_of (cache h) (FormatInt (sint index)) = None
       \<and> length (chan_buf (cacheUpdaterChan h)) < chan_cap (cacheUpdaterChan h) \<longrightarrow>
      GetProbePath h index =
        Returns ([], h\<lparr>cacheUpdaterChan :=
                        (cacheUpdaterChan h)\<lparr>chan_buf := chan_buf (cacheUpdaterChan h) @ [index]\<rparr>\<rparr>))
   \<and> (map_of (cache h) (FormatInt (sint index)) = None
       \<and> chan_cap (cacheUpdaterChan h) \<le> length (chan_buf (cacheUpdaterChan h)) \<longrightarrow>
      GetProbePath h index = Blocks)
   \<and> (chan_buf (cacheUpdaterChan h) = index # rest \<and> lookupForProbePath index \<noteq> []
       \<and> cacheUpdater lookupForProbePath h = Returns h' \<longrightarrow>
      GetProbePath h' index = Returns (lookupForProbePath index, h'))
   \<and> (chan_buf (cacheUpdaterChan h) = index # rest \<and> lookupForProbePath index = []
       \<and> map_of (cache h) (FormatInt (sint index)) = None
       \<and> length (chan_buf (cacheUpdaterChan h)) \<le> chan_cap (cacheUpdaterChan h)
       \<and> cacheUpdater lookupForProbePath h = Returns h' \<longrightarrow>
      GetProbePath h' index =
        Returns ([], h'\<lparr>cacheUpdaterChan := (cacheUpdaterChan h')\<lparr>chan_buf := rest @ [index]\<rparr>\<rparr>))"
proof (intro conjI impI)
  assume "map_of (cache h) (FormatInt (sint index)) = Some path"
  then show "GetProbePath h index = Returns (path, h)"
    by (simp add: GetProbePath_def)
next
  assume "map_of (cache h) (FormatInt (sint index)) = None
       \<and> length (chan_buf (cacheUpdaterChan h)) < chan_cap (cacheUpdaterChan h)"
  then show "GetProbePath h index =
        Returns ([], h\<lparr>cacheUpdaterChan :=
                        (cacheUpdaterChan h)\<lparr>chan_buf := chan_buf (cacheUpdaterChan h) @ [index]\<rparr>\<rparr>)"
    by (simp add: GetProbePath_def chan_send_def)
next
  assume "map_of (cache h) (FormatInt (sint index)) = None
       \<and> chan_cap (cacheUpdaterChan h) \<le> length (chan_buf (cacheUpdaterChan h))"
  then show "GetProbePath h index = Blocks"
    by (simp add: GetProbePath_def chan_send_def)
next
  assume a: "chan_buf (cacheUpdaterChan h) = index # rest \<and> lookupForProbePath index \<noteq> []
       \<and> cacheUpdater lookupForProbePath h = Returns h'"
  then have "h' = h\<lparr>cache := AList.update (FormatInt (sint index)) (lookupForProbePath index) (cache h),
                    cacheUpdaterChan := (cacheUpdaterChan h)\<lparr>chan_buf := rest\<rparr>\<rparr>"
    by (auto simp add: cacheUpdater_def chan_recv_def Let_def)
  then have "map_of (cache h') (FormatInt (sint index)) = Some (lookupForProbePath index)"
    by (simp add: update_conv')
  then show "GetProbePath h' index = Returns (lookupForProbePath index, h')"
    by (simp add: GetProbePath_def)
next
  assume a: "chan_buf (cacheUpdaterChan h) = index # rest \<and> lookupForProbePath index = []
       \<and> map_of (cache h) (FormatInt (sint index)) = None
       \<and> length (chan_buf (cacheUpdaterChan h)) \<le> chan_cap (cacheUpdaterChan h)
       \<and> cacheUpdater lookupForProbePath h = Returns h'"
  then have e: "h' = h\<lparr>cacheUpdaterChan := (cacheUpdaterChan h)\<lparr>chan_buf := rest\<rparr>\<rparr>"
    by (auto simp add: cacheUpdater_def chan_recv_def Let_def)
  from a have b: "chan_buf (cacheUpdaterChan h) = index # rest"
    and l: "length (chan_buf (cacheUpdaterChan h)) \<le> chan_cap (cacheUpdaterChan h)"
    and m: "map_of (cache h) (FormatInt (sint index)) = None"
    by blast+
  have "length rest < chan_cap (cacheUpdaterChan h)" using l unfolding b by simp
  then show "GetProbePath h' index =
        Returns ([], h'\<lparr>cacheUpdaterChan := (cacheUpdaterChan h')\<lparr>chan_buf := rest @ [index]\<rparr>\<rparr>)"
    using m by (simp add: e GetProbePath_def chan_send_def)
qed

text \<open>
  The theorem at index 7: with the path cached; on a new handler; on the full handler;
  and after the updater has served the request, with and without a path found.
\<close>

theorem GetProbePath_miss_witness:
  "map_of (cache \<lparr>cache = [(''7'', ''h1/br-1'')], cacheUpdaterChan = make_chan 200\<rparr>)
       (FormatInt (sint (7 :: 64 word))) = Some ''h1/br-1''
   \<and> GetProbePath \<lparr>cache = [(''7'', ''h1/br-1'')], cacheUpdaterChan = make_chan 200\<rparr> 7
       = Returns (''h1/br-1'', \<lparr>cache = [(''7'', ''h1/br-1'')], cacheUpdaterChan = make_chan 200\<rparr>)
   \<and> map_of (cache NewOvsSFlowProbesHandler_cached) (FormatInt (sint (7 :: 64 word))) = None
   \<and> length (chan_buf (cacheUpdaterChan NewOvsSFlowProbesHandler_cached))
        < chan_cap (cacheUpdaterChan NewOvsSFlowProbesHandler_cached)
   \<and> GetProbePath NewOvsSFlowProbesHandler_cached 7
       = Returns ([], \<lparr>cache = [], cacheUpdaterChan = \<lparr>chan_buf = [7], chan_cap = 200\<rparr>\<rparr>)
   \<and> chan_cap (cacheUpdaterChan full_handler) \<le> length (chan_buf (cacheUpdaterChan full_handler))
   \<and> GetProbePath full_handler 7 = Blocks
   \<and> cacheUpdater (\<lambda>i. ''h1/br-1'') \<lparr>cache = [], cacheUpdaterChan = \<lparr>chan_buf = [7], chan_cap = 200\<rparr>\<rparr>
       = Returns \<lparr>cache = [(''7'', ''h1/br-1'')], cacheUpdaterChan = \<lparr>chan_buf = [], chan_cap = 200\<rparr>\<rparr>
   \<and> GetProbePath \<lparr>cache = [(''7'', ''h1/br-1'')], cacheUpdaterChan = \<lparr>chan_buf = [], chan_cap = 200\<rparr>\<rparr> 7
       = Returns (''h1/br-1'',
           \<lparr>cache = [(''7'', ''h1/br-1'')], cacheUpdaterChan = \<lparr>chan_buf = [], chan_cap = 200\<rparr>\<rparr>)
   \<and> cacheUpdater (\<lambda>i. []) \<lparr>cache = [], cacheUpdaterChan = \<lparr>chan_buf = [7], chan_cap = 200\<rparr>\<rparr>
       = Returns \<lparr>cache = [], cacheUpdaterChan = \<lparr>chan_buf = [], chan_cap = 200\<rparr>\<rparr>
   \<and> GetProbePath \<lparr>cache = [], cacheUpdaterChan = \<lparr>chan_buf = [], chan_cap = 200\<rparr>\<rparr> 7
       = Returns ([], \<lparr>cache = [], cacheUpdaterChan = \<lparr>chan_buf = [7], chan_cap = 200\<rparr>\<rparr>)"
proof -
  let ?hit = "\<lparr>cache = [(''7'', ''h1/br-1'')], cacheUpdaterChan = make_chan 200\<rparr>"
  let ?one = "\<lparr>cache = [], cacheUpdaterChan = \<lparr>chan_buf = [7], chan_cap = 200\<rparr>\<rparr>"
  let ?served = "\<lparr>cache = [(''7'', ''h1/br-1'')], cacheUpdaterChan = \<lparr>chan_buf = [], chan_cap = 200\<rparr>\<rparr>"
  let ?idle = "\<lparr>cache = [], cacheUpdaterChan = \<lparr>chan_buf = [], chan_cap = 200\<rparr>\<rparr>"
  have k: "FormatInt 7 = ''7''"
    by (simp add: FormatInt_def nat_digits.simps digit_char_def)
  have a1: "map_of (cache ?hit) (FormatInt (sint (7 :: 64 word))) = Some ''h1/br-1''"
    by (simp add: k)
  have b1: "map_of (cache NewOvsSFlowProbesHandler_cached) (FormatInt (sint (7 :: 64 word))) = None"
    by (simp add: NewOvsSFlowProbesHandler_cached_def)
  have b2: "length (chan_buf (cacheUpdaterChan NewOvsSFlowProbesHandler_cached))
        < chan_cap (cacheUpdaterChan NewOvsSFlowProbesHandler_cached)"
    by (simp add: NewOvsSFlowProbesHandler_cached_def make_chan_def)
  have c1: "map_of (cache full_handler) (FormatInt (sint (7 :: 64 word))) = None"
    by (simp add: full_handler_def NewOvsSFlowProbesHandler_cached_def)
  have c2: "chan_cap (cacheUpdaterChan full_handler) \<le> length (chan_buf (cacheUpdaterChan full_handler))"
    by (simp add: full_handler_def NewOvsSFlowProbesHandler_cached_def)
  have d1: "cacheUpdater (\<lambda>i. ''h1/br-1'') ?one = Returns ?served"
    by (simp add: cacheUpdater_def chan_recv_def k)
  have d2: "chan_buf (cacheUpdaterChan ?one) = 7 # [] \<and> (\<lambda>i. ''h1/br-1'') (7 :: 64 word) \<noteq> []"
    by simp
  have e1: "cacheUpdater (\<lambda>i. []) ?one = Returns ?idle"
    by (simp add: cacheUpdater_def chan_recv_def)
  have e2: "chan_buf (cacheUpdaterChan ?one) = 7 # [] \<and> (\<lambda>i. []) (7 :: 64 word) = ([] :: string)
      \<and> map_of (cache ?one) (FormatInt (sint (7 :: 64 word))) = None
      \<and> length (chan_buf (cacheUpdaterChan ?one)) \<le> chan_cap (cacheUpdaterChan ?one)"
    by simp
  have A: "GetProbePath ?hit 7 = Returns (''h1/br-1'', ?hit)"
    using GetProbePath_miss [of ?hit 7 "''h1/br-1''"] a1 by blast
  have "GetProbePath NewOvsSFlowProbesHandler_cached 7 =
      Returns ([], NewOvsSFlowProbesHandler_cached\<lparr>cacheUpdaterChan :=
         (cacheUpdaterChan NewOvsSFlowProbesHandler_cached)
           \<lparr>chan_buf := chan_buf (cacheUpdaterChan NewOvsSFlowProbesHandler_cached) @ [7]\<rparr>\<rparr>)"
    using GetProbePath_miss [of NewOvsSFlowProbesHandler_cached 7] b1 b2 by blast
  then have B: "GetProbePath NewOvsSFlowProbesHandler_cached 7 = Returns ([], ?one)"
    by (simp add: NewOvsSFlowProbesHandler_cached_def make_chan_def)
  have C: "GetProbePath full_handler 7 = Blocks"
    using GetProbePath_miss [of full_handler 7] c1 c2 by blast
  have D: "GetProbePath ?served 7 = Returns (''h1/br-1'', ?served)"
    using GetProbePath_miss [of ?one 7 _ "[]" "\<lambda>i. ''h1/br-1''" ?served] d1 d2 by blast
  have "GetProbePath ?idle 7 =
      Returns ([], ?idle\<lparr>cacheUpdaterChan := (cacheUpdaterChan ?idle)\<lparr>chan_buf := [] @ [7]\<rparr>\<rparr>)"
    using GetProbePath_miss [of ?one 7 _ "[]" "\<lambda>i. []" ?idle] e1 e2 by blast
  then have E: "GetProbePath ?idle 7 = Returns ([], ?one)"
    by simp
  show ?thesis
    using a1 A b1 b2 B c2 C d1 D e1 E by blast
qed

section \<open>The alert engine\<close>

subsection \<open>UUID round trip\<close>

text \<open>
  Claim C9. For every identifier that is valid for the library, that is, whose string
  form the library's parser reads back as the identifier, \<open>MarshalJSON\<close> yields the string
  form between double quotes with a nil error, and \<open>UnmarshalJSON\<close> of that text, on any
  receiver, returns nil and leaves the receiver equal to the identifier.
\<close>

theorem UUID_json_roundtrip:
  assumes "ParseHex L (uuid_String L u) = Inr u"
  shows "MarshalJSON L u = ([CHR 0x22] @ uuid_String L u @ [CHR 0x22], None)
       \<and> UnmarshalJSON L v (fst (MarshalJSON L u)) = Inr (None, u)"
  using assms by (simp add: MarshalJSON_def UnmarshalJSON_def)

theorem UUID_json_roundtrip_witness:
  "ParseHex example_lib (uuid_String example_lib uuid_1) = Inr uuid_1
   \<and> MarshalJSON example_lib uuid_1
       = ([CHR 0x22] @ ''6ba7b810-9dad-11d1-80b4-00c04fd430c8'' @ [CHR 0x22], None)
   \<and> UnmarshalJSON example_lib 0 (fst (MarshalJSON example_lib uuid_1)) = Inr (None, uuid_1)"
proof -
  have h: "ParseHex example_lib (uuid_String example_lib uuid_1) = Inr uuid_1"
    by (simp add: example_lib_def)
  have s: "uuid_String example_lib uuid_1 = ''6ba7b810-9dad-11d1-80b4-00c04fd430c8''"
    by (simp add: example_lib_def)
  note t = UUID_json_roundtrip [OF h, of 0]
  from t [unfolded s] h show ?thesis
    by blast
qed

subsection \<open>Fire counts\<close>

lemma EvalNodes_keeps_manager: "snd (EvalNodes g ev now a) = a"
  by (simp add: EvalNodes_def)

text \<open>
  Claim C1 fails on the code. One rule, with stored count 0 and a test every node passes.
  The first node addition emits one message with count 1. A second addition of a node
  with the same metadata emits two messages, with counts 1 and 2; an evaluation of the
  unchanged graph emits a message with count 1 again. The count stored in the map is
  still 0: \<open>al.Count++\<close> increments the copy of the rule that the range loop made, and the
  copy is never stored.
\<close>

theorem EvalNodes_count_not_stored:
  "OnNodeAdded one_host always_true 1 one_rule host_node
     = (([\<lparr>msg_UUID = uuid_1, msg_Type = FIXED, Timestamp = 1, msg_Count = 1,
            Reason = ''notify'', ReasonData = host_node\<rparr>], None), one_rule)
   \<and> OnNodeAdded two_hosts always_true 2
        (snd (OnNodeAdded one_host always_true 1 one_rule host_node)) host_2
     = (([\<lparr>msg_UUID = uuid_1, msg_Type = FIXED, Timestamp = 2, msg_Count = 1,
            Reason = ''notify'', ReasonData = host_node\<rparr>,
          \<lparr>msg_UUID = uuid_1, msg_Type = FIXED, Timestamp = 2, msg_Count = 2,
            Reason = ''notify'', ReasonData = host_2\<rparr>], None), one_rule)
   \<and> OnNodeUpdated one_host always_true 2
        (snd (OnNodeAdded one_host always_true 1 one_rule host_node)) host_node
     = (([\<lparr>msg_UUID = uuid_1, msg_Type = FIXED, Timestamp = 2, msg_Count = 1,
            Reason = ''notify'', ReasonData = host_node\<rparr>], None), one_rule)
   \<and> map (\<lambda>e. Count (snd e)) (alerts (snd (OnNodeAdded two_hosts always_true 2
        (snd (OnNodeAdded one_host always_true 1 one_rule host_node)) host_2))) = [0]"
  by (simp add: OnNodeAdded_def OnNodeUpdated_def EvalNodes_def one_rule_def rule_1_def
      one_host_def two_hosts_def always_true_def Let_def)

subsection \<open>The watcher\<close>






end
